theory Spec2Isabelle
  imports Main "HOL-Library.Sublist"
begin

section \<open>Strings of the program\<close>

text \<open>
  A Python \<open>str\<close> is a sequence of Unicode code points, and \<open>len\<close>, indexing and
  slicing count code points. A character is therefore modelled by its code point (a
  natural number) and a string by the list of its characters. \<open>lit\<close> embeds an ASCII
  literal of the source.
\<close>

type_synonym pychar = nat
type_synonym pystr = "pychar list"

definition lit :: "string \<Rightarrow> pystr" where
  "lit s = map of_char s"

definition SP :: pychar where
  "SP = 32"

definition NL :: pychar where
  "NL = 10"

definition ESC :: pychar where
  "ESC = 27"

definition DQUOTE :: pychar where
  "DQUOTE = 34"

text \<open>
  \<open>line[a:b]\<close> for indices \<open>0 \<le> a\<close>, \<open>0 \<le> b\<close>: Python clamps both ends to the
  string, and an empty or inverted range gives the empty string. \<open>line[a:]\<close> is
  \<open>drop a line\<close> and \<open>s[:-1]\<close> is \<open>butlast s\<close> (empty for the empty string).
\<close>

definition slice :: "pystr \<Rightarrow> nat \<Rightarrow> nat \<Rightarrow> pystr" where
  "slice line a b = take (b - a) (drop a line)"

text \<open>\<open>str(n)\<close> of a Python integer: decimal digits, with a minus sign when negative.\<close>

fun str_nat :: "nat \<Rightarrow> pystr" where
  "str_nat n = (if n < 10 then [48 + n] else str_nat (n div 10) @ [48 + n mod 10])"

declare str_nat.simps [simp del]

definition str_int :: "int \<Rightarrow> pystr" where
  "str_int i = (if i < 0 then 45 # str_nat (nat (- i)) else str_nat (nat i))"

section \<open>Match spans\<close>

text \<open>
  \<open>match.span()\<close> of an \<open>re.Match\<close> object: the pair (start, end) of the match in
  the line. The iterator \<open>pattern.finditer(line)\<close> is the list of the spans it yields.
\<close>

type_synonym span = "nat \<times> nat"

section \<open>The formatters\<close>

datatype formatter = UnderlineFormatter | StandardFormatter | MachineFormatter | ColorFormatter

subsection \<open>UnderlineFormatter.format_string\<close>

definition ansi_caret :: pystr where
  "ansi_caret = [94]"

text \<open>The \<open>for match in matches\<close> loop, on the state (caret_string, start_index).\<close>

fun underline_loop :: "span list \<Rightarrow> pystr \<Rightarrow> pystr \<times> nat \<Rightarrow> pystr \<times> nat" where
  "underline_loop [] line (caret_string, start_index) = (caret_string, start_index)"
| "underline_loop ((match_start_index, match_end_index) # matches) line (caret_string, start_index) =
     (let substring_before_match = slice line start_index match_start_index;
          match_string_caret = slice line match_start_index match_end_index
      in underline_loop matches line
           (caret_string @ replicate (length substring_before_match) SP @ ansi_caret
              @ replicate (length (butlast match_string_caret)) SP,
            match_end_index))"

text \<open>
  The caret row: \<open>caret_string\<close> as the formatter has it after the loop and after
  \<open>caret_string += " " * len(line[start_index:])\<close>.
\<close>

definition caret_row :: "span list \<Rightarrow> pystr \<Rightarrow> pystr" where
  "caret_row matches line =
     (case underline_loop matches line ([], 0) of
        (caret_string, start_index) \<Rightarrow>
          caret_string @ replicate (length (drop start_index line)) SP)"

definition underline_format_string :: "span list \<Rightarrow> pystr \<Rightarrow> int \<Rightarrow> pystr \<Rightarrow> pystr" where
  "underline_format_string matches file_name line_number line =
     (case underline_loop matches line ([], 0) of
        (caret_string, start_index) \<Rightarrow>
          if length caret_string > 0 then
            (let caret_string = caret_string @ replicate (length (drop start_index line)) SP
             in file_name @ [SP] @ str_int line_number @ [SP] @ line
                  @ replicate (length file_name) SP @ [SP]
                  @ replicate (length (str_int line_number)) SP @ [SP]
                  @ caret_string @ [NL])
          else [])"

subsection \<open>StandardFormatter.format_string\<close>

definition standard_format_string :: "span list \<Rightarrow> pystr \<Rightarrow> int \<Rightarrow> pystr \<Rightarrow> pystr" where
  "standard_format_string matches file_name line_number line =
     (let matches_list = matches
      in if length matches_list > 0 then file_name @ [SP] @ str_int line_number @ [SP] @ line
         else [])"

subsection \<open>MachineFormatter.format_string\<close>

definition machine_format_string :: "span list \<Rightarrow> pystr \<Rightarrow> int \<Rightarrow> pystr \<Rightarrow> pystr" where
  "machine_format_string matches file_name line_number line =
     (let matches_list = matches
      in if length matches_list > 0 then
           (case matches_list ! 0 of
              (start_index, end_index) \<Rightarrow>
                file_name @ lit '':'' @ str_int line_number @ lit '':''
                  @ str_int (int start_index) @ lit '':''
                  @ slice line start_index end_index @ [NL])
         else [])"

subsection \<open>ColorFormatter.format_string\<close>

definition ansi_red :: pystr where
  "ansi_red = ESC # lit ''[31m''"

definition ansi_reset :: pystr where
  "ansi_reset = ESC # lit ''[0m''"

text \<open>The \<open>for match in matches\<close> loop, on the state (colored_line, start_index).\<close>

fun color_loop :: "span list \<Rightarrow> pystr \<Rightarrow> pystr \<times> nat \<Rightarrow> pystr \<times> nat" where
  "color_loop [] line (colored_line, start_index) = (colored_line, start_index)"
| "color_loop ((match_start_index, match_end_index) # matches) line (colored_line, start_index) =
     (let substring_before_match = slice line start_index match_start_index;
          match_string_colored = ansi_red @ slice line match_start_index match_end_index @ ansi_reset
      in color_loop matches line
           (colored_line @ substring_before_match @ match_string_colored, match_end_index))"

definition color_format_string :: "span list \<Rightarrow> pystr \<Rightarrow> int \<Rightarrow> pystr \<Rightarrow> pystr" where
  "color_format_string matches file_name line_number line =
     (case color_loop matches line ([], 0) of
        (colored_line, start_index) \<Rightarrow>
          if length colored_line > 0 then
            file_name @ [SP] @ str_int line_number @ [SP] @ (colored_line @ drop start_index line)
          else [])"

subsection \<open>Dispatch on the formatter object\<close>

fun format_string :: "formatter \<Rightarrow> span list \<Rightarrow> pystr \<Rightarrow> int \<Rightarrow> pystr \<Rightarrow> pystr" where
  "format_string UnderlineFormatter = underline_format_string"
| "format_string StandardFormatter = standard_format_string"
| "format_string MachineFormatter = machine_format_string"
| "format_string ColorFormatter = color_format_string"

section \<open>The formatter factory\<close>

definition COLOR :: pystr where
  "COLOR = lit ''color''"

definition MACHINE :: pystr where
  "MACHINE = lit ''machine''"

definition UNDERLINE :: pystr where
  "UNDERLINE = lit ''underline''"

definition STANDARD :: pystr where
  "STANDARD = lit ''standard''"

text \<open>
  How a run ends: normally (exit code 0), by \<open>raise SystemExit(n)\<close>, or by an
  exception nobody catches (the interpreter then exits with code 1).
\<close>

datatype outcome = Completed | SystemExit int | ValueError pystr | OSError pystr


text \<open>\<open>FormatterFactory.get_formatter\<close>; the argument defaults to \<open>None\<close>.\<close>

definition get_formatter :: "pystr option \<Rightarrow> outcome + formatter" where
  "get_formatter format_style =
     (if format_style = Some STANDARD then Inr StandardFormatter
      else if format_style = Some COLOR then Inr ColorFormatter
      else if format_style = Some MACHINE then Inr MachineFormatter
      else if format_style = Some UNDERLINE then Inr UnderlineFormatter
      else Inl (ValueError (lit ''format_style must be one of: ''
             @ [39] @ STANDARD @ [39] @ lit '', '' @ [39] @ COLOR @ [39] @ lit '', ''
             @ [39] @ MACHINE @ [39] @ lit '', '' @ [39] @ UNDERLINE @ [39])))"

section \<open>The pattern matcher\<close>

text \<open>
  Python's \<open>re\<close> module is not part of the program; it is a parameter of the model.
  \<open>re_compile\<close> returns the compiled pattern, or \<open>Inl\<close> of the text of the
  \<open>re.error\<close> it raises; \<open>finditer\<close> gives the spans of the matches of a compiled
  pattern in a line, in the order the iterator yields them.
\<close>

record 'p re_module =
  re_compile :: "pystr \<Rightarrow> pystr + 'p"
  finditer :: "'p \<Rightarrow> pystr \<Rightarrow> span list"

text \<open>
  What a run has done so far: the strings written to standard output, one per call of
  \<open>print\<close>, and the number of calls of \<open>re.compile\<close>.
\<close>

record run_state =
  stdout :: "pystr list"
  compile_calls :: nat

definition initial_state :: run_state where
  "initial_state = \<lparr>stdout = [], compile_calls = 0\<rparr>"

text \<open>The object built by \<open>PatternMatcher.__init__\<close>.\<close>

record pattern_matcher =
  self_regex :: pystr
  self_formatter :: formatter

text \<open>\<open>enumerate(iterable, start)\<close>.\<close>

fun enumerate_from :: "'a list \<Rightarrow> int \<Rightarrow> (int \<times> 'a) list" where
  "enumerate_from [] start = []"
| "enumerate_from (x # xs) start = (start, x) # enumerate_from xs (start + 1)"

text \<open>
  The \<open>for line_number, line in enumerate(iterable, 1)\<close> loop of
  \<open>_print_matches\<close>, on the output written so far.
\<close>

fun print_loop ::
  "'p re_module \<Rightarrow> 'p \<Rightarrow> formatter \<Rightarrow> pystr \<Rightarrow> (int \<times> pystr) list \<Rightarrow> pystr list \<Rightarrow> pystr list" where
  "print_loop re pattern formatter file_name [] out = out"
| "print_loop re pattern formatter file_name ((line_number, line) # rest) out =
     (let matches = finditer re pattern line;
          formatted_line = format_string formatter matches file_name line_number line
      in print_loop re pattern formatter file_name rest
           (if formatted_line \<noteq> [] then out @ [formatted_line] else out))"

text \<open>
  \<open>PatternMatcher._print_matches\<close>. \<open>r'{}'.format(regex)\<close> is the string \<open>regex\<close>
  itself; \<open>print\<close> appends a newline to the diagnostic.
\<close>

definition print_matches ::
  "'p re_module \<Rightarrow> pystr \<Rightarrow> formatter \<Rightarrow> pystr list \<Rightarrow> pystr \<Rightarrow> run_state \<Rightarrow> outcome \<times> run_state" where
  "print_matches re regex formatter iterable file_name st =
     (let raw_regex_string = regex;
          st1 = st\<lparr>compile_calls := compile_calls st + 1\<rparr>
      in case re_compile re raw_regex_string of
           Inl ex \<Rightarrow>
             (SystemExit 1,
              st1\<lparr>stdout := stdout st1 @
                [lit ''Bad regex, '' @ ex @ lit '', regex: '' @ [DQUOTE] @ raw_regex_string
                   @ [DQUOTE] @ [NL]]\<rparr>)
         | Inr pattern \<Rightarrow>
             (Completed,
              st1\<lparr>stdout := print_loop re pattern formatter file_name
                (enumerate_from iterable 1) (stdout st1)\<rparr>))"

text \<open>
  \<open>PatternMatcher.print_matches_from_files\<close>. The file system maps a file name to
  the lines that iterating over the opened file yields; \<open>open\<close> of a name it does not
  map raises an \<open>OSError\<close>, which nobody catches.
\<close>

fun print_matches_from_files ::
  "'p re_module \<Rightarrow> (pystr \<rightharpoonup> pystr list) \<Rightarrow> pattern_matcher \<Rightarrow> pystr list \<Rightarrow> run_state
     \<Rightarrow> outcome \<times> run_state" where
  "print_matches_from_files re fs self [] st = (Completed, st)"
| "print_matches_from_files re fs self (file_name # files_list) st =
     (case fs file_name of
        None \<Rightarrow> (OSError file_name, st)
      | Some f \<Rightarrow>
          (case print_matches re (self_regex self) (self_formatter self) f file_name st of
             (result, st') \<Rightarrow>
               if result = Completed then print_matches_from_files re fs self files_list st'
               else (result, st')))"

definition print_matches_from_strings ::
  "'p re_module \<Rightarrow> pattern_matcher \<Rightarrow> pystr list \<Rightarrow> run_state \<Rightarrow> outcome \<times> run_state" where
  "print_matches_from_strings re self strings_list st =
     print_matches re (self_regex self) (self_formatter self) strings_list (lit ''STDIN'') st"

section \<open>Reading standard input\<close>

text \<open>
  \<open>str.isspace\<close> of one character and \<open>str.rstrip()\<close> without argument, which
  removes all trailing whitespace: built-ins of Python, written out from its
  documentation (the characters Unicode classes as whitespace).
\<close>

definition isspace :: "pychar \<Rightarrow> bool" where
  "isspace c =
     (c \<in> set [9, 10, 11, 12, 13, 28, 29, 30, 31, 32, 133, 160, 5760,
                8192, 8193, 8194, 8195, 8196, 8197, 8198, 8199, 8200, 8201, 8202,
                8232, 8233, 8239, 8287, 12288])"

definition rstrip :: "pystr \<Rightarrow> pystr" where
  "rstrip s = rev (dropWhile isspace (rev s))"

text \<open>
  \<open>read_from_stdin\<close>: the \<open>for line in sys.stdin\<close> loop, on the list
  \<open>stdin_lines\<close>. Standard input is the list of the lines it yields up to its end.
\<close>

fun read_loop :: "pystr list \<Rightarrow> pystr list \<Rightarrow> pystr list" where
  "read_loop [] stdin_lines = stdin_lines"
| "read_loop (line # rest) stdin_lines =
     (if lit ''q'' = rstrip line then stdin_lines else read_loop rest (stdin_lines @ [line]))"

definition read_from_stdin :: "pystr list \<Rightarrow> pystr list" where
  "read_from_stdin stdin = read_loop stdin []"

section \<open>The command line and main\<close>

text \<open>The namespace returned by \<open>parse_args\<close>; \<open>args_files\<close> is \<open>None\<close> without \<open>-f\<close>.\<close>

record args =
  args_regex :: pystr
  args_files :: "pystr list option"
  args_underline :: bool
  args_color :: bool
  args_machine :: bool

definition main ::
  "'p re_module \<Rightarrow> (pystr \<rightharpoonup> pystr list) \<Rightarrow> pystr list \<Rightarrow> args \<Rightarrow> outcome \<times> run_state" where
  "main re fs stdin args =
     (let format_style =
            (if args_color args then COLOR
             else if args_machine args then MACHINE
             else if args_underline args then UNDERLINE
             else STANDARD)
      in case get_formatter (Some format_style) of
           Inl err \<Rightarrow> (err, initial_state)
         | Inr formatter \<Rightarrow>
             (let pattern_matcher = \<lparr>self_regex = args_regex args, self_formatter = formatter\<rparr>
              in case args_files args of
                   Some files_list \<Rightarrow>
                     print_matches_from_files re fs pattern_matcher files_list initial_state
                 | None \<Rightarrow>
                     (let stdin_input_list = read_from_stdin stdin
                      in print_matches_from_strings re pattern_matcher stdin_input_list
                           initial_state)))"

section \<open>Vocabulary of the properties\<close>

text \<open>
  Spans in left-to-right order without overlap, from \<open>start_index\<close> on: each span
  starts at or after the end of the one before and does not end before it starts.
\<close>

fun ordered_spans :: "nat \<Rightarrow> span list \<Rightarrow> bool" where
  "ordered_spans start_index [] = True"
| "ordered_spans start_index ((a, b) # matches) =
     (start_index \<le> a \<and> a \<le> b \<and> ordered_spans b matches)"

text \<open>
  Ordered, non-overlapping spans of positive length that lie within a line of \<open>n\<close>
  characters, from \<open>start_index\<close> on.
\<close>

fun proper_spans :: "nat \<Rightarrow> nat \<Rightarrow> span list \<Rightarrow> bool" where
  "proper_spans start_index n [] = True"
| "proper_spans start_index n ((a, b) # matches) =
     (start_index \<le> a \<and> a < b \<and> b \<le> n \<and> proper_spans b n matches)"



text \<open>
  The strings one file's lines contribute to the output: every line, numbered from
  \<open>start\<close>, is scanned and formatted, and the non-empty results are kept in order.
\<close>

definition formatted_lines ::
  "'p re_module \<Rightarrow> 'p \<Rightarrow> formatter \<Rightarrow> pystr \<Rightarrow> int \<Rightarrow> pystr list \<Rightarrow> pystr list" where
  "formatted_lines re pattern formatter file_name start lines =
     filter (\<lambda>formatted_line. formatted_line \<noteq> [])
       (map (\<lambda>(line_number, line).
               format_string formatter (finditer re pattern line) file_name line_number line)
          (enumerate_from lines start))"

text \<open>The formatter that the style flags of the command line select.\<close>

definition selected_formatter :: "args \<Rightarrow> formatter" where
  "selected_formatter args =
     (if args_color args then ColorFormatter
      else if args_machine args then MachineFormatter
      else if args_underline args then UnderlineFormatter
      else StandardFormatter)"

text \<open>
  The stop rule as the specification words it: a line is the sentinel when its content
  without the line terminator, and with nothing else removed, is the character \<open>q\<close>.
\<close>

definition trim_terminator :: "pystr \<Rightarrow> pystr" where
  "trim_terminator line = (if line \<noteq> [] \<and> last line = NL then butlast line else line)"

fun read_from_stdin_spec :: "pystr list \<Rightarrow> pystr list" where
  "read_from_stdin_spec [] = []"
| "read_from_stdin_spec (line # rest) =
     (if trim_terminator line = lit ''q'' then [] else line # read_from_stdin_spec rest)"

text \<open>
  A regular-expression engine for the examples: the behaviour of Python's \<open>re\<close> on the
  pattern \<open>(\<close>, which it rejects, and on patterns of one ordinary character, whose
  matches are the occurrences of that character.
\<close>

fun char_spans :: "pychar \<Rightarrow> nat \<Rightarrow> pystr \<Rightarrow> span list" where
  "char_spans c i [] = []"
| "char_spans c i (x # xs) =
     (if x = c then (i, i + 1) # char_spans c (i + 1) xs else char_spans c (i + 1) xs)"

definition example_re :: "pystr re_module" where
  "example_re =
     \<lparr>re_compile = (\<lambda>regex.
        if regex = lit ''('' then Inl (lit ''missing ), unterminated subpattern at position 0'')
        else Inr regex),
      finditer = (\<lambda>pattern line. case pattern of [c] \<Rightarrow> char_spans c 0 line | _ \<Rightarrow> [])\<rparr>"


section \<open>Properties of the formatters\<close>

text \<open>
  C1. Every formatter variant (Standard, Color, Underline, Machine) returns the empty
  string when the sequence of match spans is empty, whatever the source identifier,
  the line number and the line text are.
\<close>

theorem format_string_no_spans:
  "format_string fmt [] file_name line_number line = []"
  by (cases fmt)
     (simp_all add: underline_format_string_def standard_format_string_def
        machine_format_string_def color_format_string_def)

text \<open>
  C2. With at least one match span, the Machine formatter returns
  \<open>source_id:line_number:start:substring\<close> and a newline, where start and substring
  \<open>line[start:end]\<close> are those of the first span; the spans after the first have no
  effect on the output.
\<close>

theorem machine_format_first_span:
  "machine_format_string ((start, end') # others) file_name line_number line =
     file_name @ lit '':'' @ str_int line_number @ lit '':'' @ str_int (int start) @ lit '':''
       @ slice line start end' @ [NL]
   \<and> machine_format_string ((start, end') # others) file_name line_number line =
     machine_format_string [(start, end')] file_name line_number line"
  by (simp add: machine_format_string_def)

text \<open>
  Two runs of the formatters on the line \<open>foobar\<close>: the Standard formatter on the
  span of \<open>foo\<close>, the Machine formatter on the span of \<open>oo\<close>.
\<close>

lemma standard_format_foobar:
  "standard_format_string [(0, 3)] (lit ''STDIN'') 1 (lit ''foobar'' @ [NL])
     = lit ''STDIN 1 foobar'' @ [NL]"
  by code_simp

lemma machine_format_foobar:
  "machine_format_string [(1, 3)] (lit ''STDIN'') 1 (lit ''foobar'' @ [NL])
     = lit ''STDIN:1:1:oo'' @ [NL]"
  by code_simp

subsection \<open>The Color formatter\<close>





lemma color_loop_acc:
  "color_loop matches line (acc, s) =
     (acc @ fst (color_loop matches line ([], s)), snd (color_loop matches line ([], s)))"
proof (induction matches arbitrary: acc s)
  case Nil
  show ?case by simp
next
  case (Cons m matches)
  obtain a b where m: "m = (a, b)" by (cases m)
  show ?case
    unfolding m color_loop.simps Let_def
    by (subst Cons.IH, subst (2 3) Cons.IH) simp
qed

lemma color_loop_fst:
  "fst (color_loop matches line (acc, s)) = acc @ fst (color_loop matches line ([], s))"
  by (subst color_loop_acc) simp






lemma color_loop_nonempty: "matches \<noteq> [] \<Longrightarrow> fst (color_loop matches line (acc, s)) \<noteq> []"
proof (cases matches)
  case Nil
  assume "matches \<noteq> []"
  with Nil show ?thesis by simp
next
  case (Cons m rest)
  obtain a b where m: "m = (a, b)" by (cases m)
  show ?thesis
    unfolding Cons m color_loop.simps Let_def
    by (subst color_loop_fst) (simp add: ansi_red_def)
qed




text \<open>
  C10. With a non-empty sequence of spans the Color formatter's output is not empty,
  also when every span has length zero: the loop renders a span (p, p) as the text
  before it followed by the start-red sequence and, directly after it, the reset
  sequence.
\<close>

theorem color_zero_length_spans:
  assumes "matches \<noteq> []"
  shows "color_format_string matches file_name line_number line \<noteq> []
         \<and> color_loop ((p, p) # rest) line (colored_line, start_index) =
             color_loop rest line
               (colored_line @ slice line start_index p @ ansi_red @ ansi_reset, p)"
proof -
  obtain colored start where loop: "color_loop matches line ([], 0) = (colored, start)"
    by (cases "color_loop matches line ([], 0)")
  have "colored \<noteq> []"
    using color_loop_nonempty [OF assms, of line "[]" 0] loop by simp
  then show ?thesis
    by (simp add: color_format_string_def loop slice_def)
qed

theorem color_zero_length_spans_witness:
  "[(0, 0), (1, 1), (2, 2)] \<noteq> []
   \<and> color_format_string [(0, 0), (1, 1), (2, 2)] (lit ''f'') 1 (lit ''a'' @ [NL])
       = lit ''f 1 '' @ ansi_red @ ansi_reset @ lit ''a'' @ ansi_red @ ansi_reset @ [NL]
           @ ansi_red @ ansi_reset"
  using color_zero_length_spans [of "[(0, 0), (1, 1), (2, 2)]" "lit ''f''" 1 "lit ''a'' @ [NL]"]
  by code_simp

subsection \<open>The Underline formatter\<close>


lemma underline_loop_acc:
  "underline_loop matches line (acc, s) =
     (acc @ fst (underline_loop matches line ([], s)), snd (underline_loop matches line ([], s)))"
proof (induction matches arbitrary: acc s)
  case Nil
  show ?case by simp
next
  case (Cons m matches)
  obtain a b where m: "m = (a, b)" by (cases m)
  show ?case
    unfolding m underline_loop.simps Let_def
    by (subst Cons.IH, subst (2 3) Cons.IH) simp
qed


lemma underline_loop_snd:
  "snd (underline_loop matches line (acc, s)) = snd (underline_loop matches line ([], s))"
  by (subst underline_loop_acc) simp












lemma caret_segment_nth:
  assumes "s \<le> a" and "a < b" and "i < b - s"
  shows "(replicate (a - s) SP @ ansi_caret @ replicate (b - a - 1) SP) ! i =
           (if s + i = a then 94 else SP)"
  using assms by (auto simp: nth_append ansi_caret_def nth_Cons')

lemma caret_segment_length:
  assumes "s \<le> a" and "a < b"
  shows "length (replicate (a - s) SP @ ansi_caret @ replicate (b - a - 1) SP) = b - s"
  using assms by (simp add: ansi_caret_def)

lemma underline_loop_step:
  assumes "s \<le> a" and "a < b" and "b \<le> length line"
  shows "underline_loop ((a, b) # matches) line ([], s) =
           ((replicate (a - s) SP @ ansi_caret @ replicate (b - a - 1) SP)
              @ fst (underline_loop matches line ([], b)),
            snd (underline_loop matches line ([], b)))"
proof -
  have before: "length (slice line s a) = a - s"
    using assms by (simp add: slice_def)
  have inside: "length (butlast (slice line a b)) = b - a - 1"
    using assms by (simp add: slice_def)
  show ?thesis
    unfolding underline_loop.simps Let_def before inside
    by (subst underline_loop_acc) simp
qed

lemma underline_loop_proper:
  assumes "proper_spans s (length line) matches" and "s \<le> length line"
  shows "length (fst (underline_loop matches line ([], s)))
           = snd (underline_loop matches line ([], s)) - s
         \<and> s \<le> snd (underline_loop matches line ([], s))
         \<and> snd (underline_loop matches line ([], s)) \<le> length line
         \<and> (\<forall>i < length (fst (underline_loop matches line ([], s))).
               fst (underline_loop matches line ([], s)) ! i =
                 (if s + i \<in> fst ` set matches then 94 else SP))
         \<and> (\<forall>m \<in> set matches. s \<le> fst m \<and> fst m < snd (underline_loop matches line ([], s)))"
  using assms
proof (induction matches arbitrary: s)
  case Nil
  then show ?case by simp
next
  case (Cons m matches)
  obtain a b where m: "m = (a, b)" by (cases m)
  from Cons.prems have ord: "s \<le> a" "a < b" "b \<le> length line"
    and rest: "proper_spans b (length line) matches"
    by (simp_all add: m)
  let ?seg = "replicate (a - s) SP @ ansi_caret @ replicate (b - a - 1) SP"
  let ?L = "fst (underline_loop matches line ([], b))"
  let ?E = "snd (underline_loop matches line ([], b))"
  have step: "underline_loop (m # matches) line ([], s) = (?seg @ ?L, ?E)"
    unfolding m by (rule underline_loop_step [OF ord])
  have seg_len: "length ?seg = b - s"
    by (rule caret_segment_length [OF ord(1,2)])
  have IH: "length ?L = ?E - b" "b \<le> ?E" "?E \<le> length line"
    "\<And>i. i < length ?L \<Longrightarrow> ?L ! i = (if b + i \<in> fst ` set matches then 94 else SP)"
    "\<And>x. x \<in> set matches \<Longrightarrow> b \<le> fst x \<and> fst x < ?E"
    using Cons.IH [OF rest ord(3)] by blast+
  have len: "length (?seg @ ?L) = ?E - s"
    using seg_len IH(1,2) ord by simp
  have nth: "(?seg @ ?L) ! i = (if s + i \<in> fst ` set (m # matches) then 94 else SP)"
    if i: "i < length (?seg @ ?L)" for i
  proof (cases "i < b - s")
    case True
    then have "s + i \<notin> fst ` set matches"
      using IH(5) by fastforce
    moreover have "(?seg @ ?L) ! i = (if s + i = a then 94 else SP)"
      using True caret_segment_nth [OF ord(1,2) True] seg_len by (simp only: nth_append) simp
    ultimately show ?thesis
      by (auto simp: m)
  next
    case False
    then have j: "i - (b - s) < length ?L"
      using i seg_len by simp
    have "(?seg @ ?L) ! i = ?L ! (i - (b - s))"
      using False seg_len by (simp only: nth_append) simp
    also have "\<dots> = (if b + (i - (b - s)) \<in> fst ` set matches then 94 else SP)"
      by (rule IH(4) [OF j])
    also have "b + (i - (b - s)) = s + i"
      using False ord by simp
    finally show ?thesis
      using False ord by (auto simp: m)
  qed
  have starts: "s \<le> fst x \<and> fst x < ?E" if "x \<in> set (m # matches)" for x
  proof (cases "x = m")
    case True
    then show ?thesis
      using IH(2) ord by (simp add: m)
  next
    case False
    then have "x \<in> set matches"
      using that by simp
    then show ?thesis
      using IH(5) [of x] ord by simp
  qed
  show ?case
    unfolding step using len nth starts IH(2,3) ord by simp
qed

text \<open>
  C5, as the code has it. For ordered, non-overlapping match spans of positive length
  within the line, the caret row (without the alignment padding) is as long as the line
  text and holds a caret exactly at the start index of each span and a space everywhere
  else. Spans of length zero are left out of the statement: each of them adds a caret
  without using up a character of the line, so the row outgrows the line, as the
  counterexample shows on the spans of the pattern \<open>x*\<close> in the line \<open>ab\<close>.
\<close>

theorem caret_row_positive_spans:
  assumes "proper_spans 0 (length line) matches"
  shows "length (caret_row matches line) = length line
         \<and> (\<forall>i < length line.
               caret_row matches line ! i = (if i \<in> fst ` set matches then 94 else SP))"
proof -
  let ?L = "fst (underline_loop matches line ([], 0))"
  let ?E = "snd (underline_loop matches line ([], 0))"
  have loop: "length ?L = ?E" "?E \<le> length line"
    "\<And>i. i < length ?L \<Longrightarrow> ?L ! i = (if i \<in> fst ` set matches then 94 else SP)"
    "\<And>x. x \<in> set matches \<Longrightarrow> fst x < ?E"
    using underline_loop_proper [OF assms] by auto
  have row: "caret_row matches line = ?L @ replicate (length line - ?E) SP"
    by (simp add: caret_row_def split: prod.splits)
  have "caret_row matches line ! i = (if i \<in> fst ` set matches then 94 else SP)"
    if "i < length line" for i
  proof (cases "i < ?E")
    case True
    then show ?thesis
      using loop(1,3) by (simp add: row nth_append)
  next
    case False
    then have "i \<notin> fst ` set matches"
      using loop(4) by fastforce
    then show ?thesis
      using False that loop(1) by (simp add: row nth_append)
  qed
  then show ?thesis
    using loop(1,2) by (simp add: row)
qed

theorem caret_row_positive_spans_witness:
  "proper_spans 0 (length (lit ''foo bar'' @ [NL])) [(0, 3), (4, 7)]
   \<and> length (caret_row [(0, 3), (4, 7)] (lit ''foo bar'' @ [NL])) = length (lit ''foo bar'' @ [NL])
   \<and> caret_row [(0, 3), (4, 7)] (lit ''foo bar'' @ [NL]) ! 4 = 94
   \<and> caret_row [(0, 3), (4, 7)] (lit ''foo bar'' @ [NL]) ! 5 = SP
   \<and> caret_row [(0, 3), (4, 7)] (lit ''foo bar'' @ [NL]) = lit ''^   ^   ''"
proof -
  have spans: "proper_spans 0 (length (lit ''foo bar'' @ [NL])) [(0, 3), (4, 7)]"
    by (simp add: lit_def)
  have row: "caret_row [(0, 3), (4, 7)] (lit ''foo bar'' @ [NL]) = lit ''^   ^   ''"
    by code_simp
  have len: "length (caret_row [(0, 3), (4, 7)] (lit ''foo bar'' @ [NL]))
      = length (lit ''foo bar'' @ [NL])"
    using caret_row_positive_spans [OF spans] by blast
  have "(4::nat) < length (lit ''foo bar'' @ [NL])" and "(5::nat) < length (lit ''foo bar'' @ [NL])"
    by (simp_all add: lit_def)
  then have "caret_row [(0, 3), (4, 7)] (lit ''foo bar'' @ [NL]) ! 4 = 94"
    and "caret_row [(0, 3), (4, 7)] (lit ''foo bar'' @ [NL]) ! 5 = SP"
    using caret_row_positive_spans [OF spans] by force+
  with spans row len show ?thesis
    by simp
qed

theorem caret_row_zero_length_counterexample:
  "ordered_spans 0 [(0, 0), (1, 1), (2, 2), (3, 3)]
   \<and> caret_row [(0, 0), (1, 1), (2, 2), (3, 3)] (lit ''ab'' @ [NL]) = lit ''^ ^ ^ ^''
   \<and> length (caret_row [(0, 0), (1, 1), (2, 2), (3, 3)] (lit ''ab'' @ [NL]))
       \<noteq> length (lit ''ab'' @ [NL])
   \<and> caret_row [(0, 0), (1, 1), (2, 2), (3, 3)] (lit ''ab'' @ [NL]) ! 1 \<noteq> 94"
  by code_simp

section \<open>Properties of a run\<close>

lemma print_loop_eq:
  "print_loop re pattern formatter file_name xs out =
     out @ filter (\<lambda>formatted_line. formatted_line \<noteq> [])
       (map (\<lambda>(line_number, line).
               format_string formatter (finditer re pattern line) file_name line_number line) xs)"
proof (induction xs arbitrary: out)
  case Nil
  show ?case by simp
next
  case (Cons x xs)
  obtain line_number line where x: "x = (line_number, line)" by (cases x)
  show ?case
    unfolding x print_loop.simps Let_def
    by (subst Cons.IH) simp
qed

lemma print_matches_compiled:
  assumes "re_compile re regex = Inr pattern"
  shows "print_matches re regex formatter iterable file_name st =
           (Completed,
            st\<lparr>stdout := stdout st @ formatted_lines re pattern formatter file_name 1 iterable,
               compile_calls := compile_calls st + 1\<rparr>)"
  using assms by (simp add: print_matches_def formatted_lines_def print_loop_eq)





lemma get_formatter_selected:
  "get_formatter (Some (if args_color args then COLOR
             else if args_machine args then MACHINE
             else if args_underline args then UNDERLINE
             else STANDARD)) = Inr (selected_formatter args)"
  by (simp add: get_formatter_def selected_formatter_def COLOR_def MACHINE_def UNDERLINE_def
      STANDARD_def lit_def)

lemma read_loop_eq:
  "read_loop stdin stdin_lines = stdin_lines @ takeWhile (\<lambda>line. rstrip line \<noteq> lit ''q'') stdin"
  by (induction stdin arbitrary: stdin_lines) auto

lemma main_stdin:
  assumes "args_files args = None"
  shows "main re fs stdin args =
     print_matches re (args_regex args) (selected_formatter args) (read_from_stdin stdin)
       (lit ''STDIN'') initial_state"
  using assms by (simp add: main_def get_formatter_selected print_matches_from_strings_def)







text \<open>
  C7, as the code has it. Reading standard input stops at the first line that equals
  \<open>q\<close> after all its trailing whitespace (not only the line terminator) is removed;
  the lines before it, and no others, are scanned and formatted, with the source
  identifier \<open>STDIN\<close> and numbered from 1. A line such as \<open>q\<close> followed by a space
  stops the reading too, as the counterexample shows.
\<close>

theorem stdin_sentinel_run:
  assumes "args_files args = None" and "re_compile re (args_regex args) = Inr pattern"
  shows "read_from_stdin stdin = takeWhile (\<lambda>line. rstrip line \<noteq> lit ''q'') stdin
         \<and> main re fs stdin args =
             (Completed,
              \<lparr>stdout = formatted_lines re pattern (selected_formatter args) (lit ''STDIN'') 1
                          (takeWhile (\<lambda>line. rstrip line \<noteq> lit ''q'') stdin),
               compile_calls = 1\<rparr>)"
  using assms
  by (simp add: main_stdin print_matches_compiled read_from_stdin_def read_loop_eq
      initial_state_def)

theorem stdin_sentinel_run_witness:
  "args_files \<lparr>args_regex = lit ''a'', args_files = None,
       args_underline = False, args_color = False, args_machine = False\<rparr> = None
   \<and> re_compile example_re (lit ''a'') = Inr (lit ''a'')
   \<and> read_from_stdin [lit ''bar'' @ [NL], lit ''q  '' @ [NL], lit ''baz'' @ [NL]]
       = [lit ''bar'' @ [NL]]
   \<and> main example_re (map_of []) [lit ''bar'' @ [NL], lit ''q  '' @ [NL], lit ''baz'' @ [NL]]
       \<lparr>args_regex = lit ''a'', args_files = None,
        args_underline = False, args_color = False, args_machine = False\<rparr>
     = (Completed, \<lparr>stdout = [lit ''STDIN 1 bar'' @ [NL]], compile_calls = 1\<rparr>)"
proof -
  let ?args = "\<lparr>args_regex = lit ''a'', args_files = None,
        args_underline = False, args_color = False, args_machine = False\<rparr>"
  let ?stdin = "[lit ''bar'' @ [NL], lit ''q  '' @ [NL], lit ''baz'' @ [NL]]"
  have no_files: "args_files ?args = None"
    by simp
  have compiled: "re_compile example_re (args_regex ?args) = Inr (lit ''a'')"
    by code_simp
  have before: "takeWhile (\<lambda>line. rstrip line \<noteq> lit ''q'') ?stdin = [lit ''bar'' @ [NL]]"
    by (simp add: rstrip_def isspace_def lit_def NL_def)
  have formatted: "formatted_lines example_re (lit ''a'') (selected_formatter ?args)
      (lit ''STDIN'') 1 [lit ''bar'' @ [NL]] = [lit ''STDIN 1 bar'' @ [NL]]"
    by code_simp
  show ?thesis
    using compiled stdin_sentinel_run [OF no_files compiled, of ?stdin "map_of []"]
    by (simp only: before formatted) simp
qed

theorem stdin_sentinel_counterexample:
  "trim_terminator (lit ''q '' @ [NL]) \<noteq> lit ''q''
   \<and> read_from_stdin_spec [lit ''q '' @ [NL], lit ''bar'' @ [NL]]
       = [lit ''q '' @ [NL], lit ''bar'' @ [NL]]
   \<and> read_from_stdin [lit ''q '' @ [NL], lit ''bar'' @ [NL]] = []
   \<and> read_from_stdin [lit ''q '' @ [NL], lit ''bar'' @ [NL]]
       \<noteq> read_from_stdin_spec [lit ''q '' @ [NL], lit ''bar'' @ [NL]]"
  by (simp add: read_from_stdin_def rstrip_def isspace_def trim_terminator_def lit_def NL_def)






end
